theory Spec2Isabelle
  imports Main "HOL-Library.Word" "HOL-Library.Sublist"
begin

section \<open>Strings\<close>

text \<open>
  A JavaScript string is a sequence of 16-bit code units. ASCII literals of the source are
  written through \<open>js\<close>; the Chinese literals are given by their code units.
\<close>

type_synonym jsstring = "16 word list"

definition js :: "string \<Rightarrow> jsstring" where
  "js = map of_char"

section \<open>The session watchdog (\<open>Auth.auto_auth\<close>)\<close>

text \<open>
  \<open>auto_auth\<close> keeps \<open>last_active\<close> in a closure, writes \<open>htmlTitle\<close>,
  \<open>_authrenew\<close> and \<open>_auth_check_inited\<close> on the root scope, calls the server through
  \<open>Auth.required\<close> and \<open>Auth.getlastactive\<close>, registers timers through \<open>Timeout\<close> and
  opens the modal \<open>#_authconfirm\<close>. The model passes all of this as one state record.
  Times are milliseconds as read from \<open>new Date().getTime()\<close>.
\<close>

definition check_timeout :: int where
  "check_timeout = 300 * 1000"

definition auth_timeout :: int where
  "auth_timeout = 2500 * 1000"

definition blinks :: "jsstring list" where
  "blinks = [[0x767B, 0x5F55, 0x8D85, 0x65F6], js ''!!!!!!!!'']"

text \<open>The functions handed to \<open>Timeout\<close>: \<open>active\<close>, and the \<open>toggletitle\<close> of one
  run of the expiring branch (named by the address of that run's variables).\<close>

datatype callback = Active | Toggletitle nat

record timer =
  callback :: callback
  delay :: int

text \<open>Calls sent to the server. \<open>Getlastactive now\<close> carries the \<open>now\<close> its callback
  closes over.\<close>

datatype call = Required | Getlastactive int

text \<open>The variables one run of the expiring branch declares; \<open>toggletitle\<close> and
  \<open>_authrenew\<close> of that run share them.\<close>

record blink =
  oldHtmlTitle :: "jsstring option"
  blink_i :: nat
  stop_blink :: bool

record wd_state =
  auth_check_inited :: bool
  last_active :: int
  htmlTitle :: "jsstring option"
  authrenew :: "nat option"
  blinkers :: "nat \<Rightarrow> blink"
  next_blink :: nat
  timers :: "jsstring \<rightharpoonup> timer"
  calls :: "call list"
  authconfirm_modal :: nat

text \<open>
  Modelled from the spec: the \<open>Timeout\<close> service is not part of this file. Section 5 of the
  specification describes it as a named timer with cancel-and-reschedule: registering a
  function under a name replaces the timer pending under that name.
\<close>

definition Timeout :: "callback \<Rightarrow> int \<Rightarrow> jsstring \<Rightarrow> wd_state \<Rightarrow> wd_state" where
  "Timeout f d name s = s\<lparr>timers := (timers s)(name \<mapsto> \<lparr>callback = f, delay = d\<rparr>)\<rparr>"

definition Auth_required :: "wd_state \<Rightarrow> wd_state" where
  "Auth_required s = s\<lparr>calls := calls s @ [Required]\<rparr>"

definition Auth_getlastactive :: "int \<Rightarrow> wd_state \<Rightarrow> wd_state" where
  "Auth_getlastactive now s = s\<lparr>calls := calls s @ [Getlastactive now]\<rparr>"

definition mousemove :: "int \<Rightarrow> wd_state \<Rightarrow> wd_state" where
  "mousemove t s = s\<lparr>last_active := t\<rparr>"

definition keydown :: "int \<Rightarrow> wd_state \<Rightarrow> wd_state" where
  "keydown t s = s\<lparr>last_active := t\<rparr>"

definition toggletitle :: "nat \<Rightarrow> wd_state \<Rightarrow> wd_state" where
  "toggletitle k s =
     (let b = blinkers s k in
      if \<not> stop_blink b then
        Timeout (Toggletitle k) 1000 (js ''_authtimeout_title'')
          (s\<lparr>htmlTitle := Some (blinks ! (blink_i b mod 2)),
             blinkers := (blinkers s)(k := b\<lparr>blink_i := blink_i b + 1\<rparr>)\<rparr>)
      else s\<lparr>htmlTitle := oldHtmlTitle b\<rparr>)"

text \<open>\<open>$rootScope._authrenew\<close> of run \<open>k\<close>, called at time \<open>t\<close>.\<close>

definition authrenew_fn :: "nat \<Rightarrow> int \<Rightarrow> wd_state \<Rightarrow> wd_state" where
  "authrenew_fn k t s =
     Timeout Active check_timeout (js ''_authtimeout'')
       (Auth_required
          (s\<lparr>last_active := t,
             blinkers := (blinkers s)(k := (blinkers s k)\<lparr>stop_blink := True\<rparr>)\<rparr>))"

text \<open>The confirmation action of the modal calls \<open>$rootScope._authrenew()\<close>; calling it
  while it is still undefined is a TypeError.\<close>

datatype js_error = TypeError | URIError | SyntaxError

definition confirm :: "int \<Rightarrow> wd_state \<Rightarrow> js_error + wd_state" where
  "confirm t s = (case authrenew s of None \<Rightarrow> Inl TypeError | Some k \<Rightarrow> Inr (authrenew_fn k t s))"

text \<open>The callback given to \<open>Auth.getlastactive\<close> by the tick that read \<open>now\<close>. The server
  answers with epoch seconds, an integer, on which \<open>parseInt\<close> is the identity.\<close>

definition getlastactive_callback :: "int \<Rightarrow> int \<Rightarrow> wd_state \<Rightarrow> wd_state" where
  "getlastactive_callback now answer s =
     (let lastactive = answer * 1000 in
      if now - lastactive > auth_timeout then
        let k = next_blink s;
            s1 = s\<lparr>blinkers := (blinkers s)(k := \<lparr>oldHtmlTitle = htmlTitle s, blink_i = 0, stop_blink = False\<rparr>),
                   next_blink := Suc k\<rparr>;
            s2 = toggletitle k s1;
            s3 = s2\<lparr>authrenew := Some k\<rparr>
        in s3\<lparr>authconfirm_modal := authconfirm_modal s3 + 1\<rparr>
      else
        Timeout Active check_timeout (js ''_authtimeout'') (s\<lparr>last_active := lastactive\<rparr>))"

text \<open>One run of \<open>active\<close>: \<open>now\<close> is the clock and \<open>path\<close> is \<open>$location.path()\<close>, both as
  read by this run.\<close>

definition active :: "int \<Rightarrow> jsstring \<Rightarrow> wd_state \<Rightarrow> wd_state" where
  "active now path s =
     (let (stop_check, s1) =
        (if now - last_active s < check_timeout then (False, Auth_required s)
         else if now - last_active s > auth_timeout then (True, Auth_getlastactive now s)
         else (False, s))
      in if \<not> stop_check \<and> path \<noteq> js ''/''
         then Timeout Active check_timeout (js ''_authtimeout'') s1
         else s1)"

text \<open>\<open>auto_auth\<close> itself, called at time \<open>t\<close>: the first call initialises the closure and
  starts the timer, later calls do nothing.\<close>

definition auto_auth :: "int \<Rightarrow> wd_state \<Rightarrow> wd_state" where
  "auto_auth t s =
     (if \<not> auth_check_inited s then
        Timeout Active check_timeout (js ''_authtimeout'')
          (s\<lparr>auth_check_inited := True, last_active := t\<rparr>)
      else s)"

text \<open>A pending timer fires: it leaves the table and its function runs.\<close>

definition fire :: "jsstring \<Rightarrow> int \<Rightarrow> jsstring \<Rightarrow> wd_state \<Rightarrow> wd_state" where
  "fire name now path s =
     (case timers s name of
        None \<Rightarrow> s
      | Some t \<Rightarrow>
          (let s' = s\<lparr>timers := (timers s)(name := None)\<rparr> in
           case callback t of
             Active \<Rightarrow> active now path s'
           | Toggletitle k \<Rightarrow> toggletitle k s'))"

text \<open>The state of the page before \<open>auto_auth\<close> has run: nothing initialised, no timer,
  no call sent, the title not yet set.\<close>

definition wd_init :: wd_state where
  "wd_init =
     \<lparr>auth_check_inited = False, last_active = 0, htmlTitle = None, authrenew = None,
      blinkers = (\<lambda>_. \<lparr>oldHtmlTitle = None, blink_i = 0, stop_blink = False\<rparr>),
      next_blink = 0, timers = Map.empty, calls = [], authconfirm_modal = 0\<rparr>"

text \<open>The state the expiring branch leaves behind, while run \<open>k\<close> blinks and the modal
  waits: \<open>_authrenew\<close> is the function of run \<open>k\<close>, that run has not been stopped, and its
  \<open>toggletitle\<close> is pending under the title timer.\<close>

definition blocked_confirm :: "nat \<Rightarrow> wd_state \<Rightarrow> bool" where
  "blocked_confirm k s =
     (authrenew s = Some k \<and> \<not> stop_blink (blinkers s k) \<and>
      timers s (js ''_authtimeout_title'') = Some \<lparr>callback = Toggletitle k, delay = 1000\<rparr>)"

text \<open>The title timer firing once for each element of a list of clock and path readings.\<close>

definition fire_title :: "(int \<times> jsstring) list \<Rightarrow> wd_state \<Rightarrow> wd_state" where
  "fire_title env s = fold (\<lambda>(t, p). fire (js ''_authtimeout_title'') t p) env s"

section \<open>The route table\<close>

text \<open>
  \<open>_r(t, c, a)\<close> builds one route: the template below \<open>template_path\<close>, the controller,
  \<open>reloadOnSearch: false\<close>, and \<open>resolve = Auth\<close> unless \<open>a\<close> is given. The globals
  \<open>template_path\<close> and \<open>_v\<close> (as it prints) are defined outside this file and are
  parameters here. A controller is named by its identifier.
\<close>

datatype resolver = Auth

record route =
  templateUrl :: jsstring
  controller :: string
  reloadOnSearch :: bool
  resolve :: "resolver option"

definition route_r :: "jsstring \<Rightarrow> jsstring \<Rightarrow> string \<Rightarrow> string \<Rightarrow> bool \<Rightarrow> route" where
  "route_r template_path v t c a =
     (let r = \<lparr>templateUrl = template_path @ js ''/partials/'' @ js t @ js ''.html?_v='' @ v,
                controller = c, reloadOnSearch = False, resolve = None\<rparr>
      in if \<not> a then r\<lparr>resolve := Some Auth\<rparr> else r)"

text \<open>The \<open>when\<close> calls, in the order of the source.\<close>

definition routes :: "jsstring \<Rightarrow> jsstring \<Rightarrow> (jsstring \<times> route) list" where
  "routes template_path v =
     [(js ''/login'', route_r template_path v ''login'' ''LoginCtrl'' True),
      (js ''/'', route_r template_path v ''main'' ''MainCtrl'' False),
      (js ''/service/nginx'', route_r template_path v ''service/nginx'' ''ServiceNginxCtrl'' False),
      (js ''/service/apache'', route_r template_path v ''service/apache'' ''ServiceApacheCtrl'' False),
      (js ''/service/lighttpd'', route_r template_path v ''service/lighttpd'' ''ServiceLighttpdCtrl'' False),
      (js ''/service/tomcat'', route_r template_path v ''service/tomcat'' ''ServiceTomcatCtrl'' False),
      (js ''/service/vsftpd'', route_r template_path v ''service/vsftpd'' ''ServiceVsftpdCtrl'' False),
      (js ''/service/proftpd'', route_r template_path v ''service/proftpd'' ''ServiceProFTPDCtrl'' False),
      (js ''/service/pureftpd'', route_r template_path v ''service/pureftpd'' ''ServicePureFTPdCtrl'' False),
      (js ''/service/mysql'', route_r template_path v ''service/mysql'' ''ServiceMySQLCtrl'' False),
      (js ''/service/mariadb'', route_r template_path v ''service/mariadb'' ''ServiceMariaDBCtrl'' False),
      (js ''/service/redis'', route_r template_path v ''service/redis'' ''ServiceRedisCtrl'' False),
      (js ''/service/memcache'', route_r template_path v ''service/memcache'' ''ServiceMemcacheCtrl'' False),
      (js ''/service/mongodb'', route_r template_path v ''service/mongodb'' ''ServiceMongoDBCtrl'' False),
      (js ''/service/minio'', route_r template_path v ''service/minio'' ''ServiceMinIOCtrl'' False),
      (js ''/service/php'', route_r template_path v ''service/php'' ''ServicePHPCtrl'' False),
      (js ''/service/sendmail'', route_r template_path v ''service/sendmail'' ''ServiceSendmailCtrl'' False),
      (js ''/service/ssh'', route_r template_path v ''service/ssh'' ''ServiceSSHCtrl'' False),
      (js ''/service/iptables'', route_r template_path v ''service/iptables'' ''ServiceIPTablesCtrl'' False),
      (js ''/service/cron'', route_r template_path v ''service/cron'' ''ServiceCronCtrl'' False),
      (js ''/service/ntp'', route_r template_path v ''service/ntp'' ''ServiceNTPCtrl'' False),
      (js ''/service/named'', route_r template_path v ''service/named'' ''ServiceNamedCtrl'' False),
      (js ''/service/samba'', route_r template_path v ''service/samba'' ''ServiceSambaCtrl'' False),
      (js ''/service'', route_r template_path v ''service/index'' ''ServiceCtrl'' False),
      (js ''/file'', route_r template_path v ''file/file'' ''FileCtrl'' False),
      (js ''/file/go#(:path)'', route_r template_path v ''file/file'' ''FileCtrl'' False),
      (js ''/file/trash'', route_r template_path v ''file/trash'' ''FileTrashCtrl'' False),
      (js ''/site'', route_r template_path v ''site/index'' ''SiteCtrl'' False),
      (js ''/site/nginx/:section'', route_r template_path v ''site/nginx/site'' ''SiteNginxCtrl'' False),
      (js ''/site/apache/:section'', route_r template_path v ''site/apache/site'' ''SiteApacheCtrl'' False),
      (js ''/database'', route_r template_path v ''database/index'' ''DatabaseCtrl'' False),
      (js ''/database/mysql/db/new'', route_r template_path v ''database/mysql/dbnew'' ''DatabaseMySQLNewDBCtrl'' False),
      (js ''/database/mysql/db/edit/:section'', route_r template_path v ''database/mysql/dbedit'' ''DatabaseMySQLEditDBCtrl'' False),
      (js ''/database/mysql/user/new'', route_r template_path v ''database/mysql/usernew'' ''DatabaseMySQLNewUserCtrl'' False),
      (js ''/database/mysql/user/edit/:section'', route_r template_path v ''database/mysql/useredit'' ''DatabaseMySQLEditUserCtrl'' False),
      (js ''/ftp'', route_r template_path v ''ftp'' ''FtpCtrl'' False),
      (js ''/utils'', route_r template_path v ''utils/index'' ''UtilsCtrl'' False),
      (js ''/utils/user'', route_r template_path v ''utils/user'' ''UtilsUserCtrl'' False),
      (js ''/utils/process'', route_r template_path v ''utils/process'' ''UtilsProcessCtrl'' False),
      (js ''/utils/network'', route_r template_path v ''utils/network'' ''UtilsNetworkCtrl'' False),
      (js ''/utils/time'', route_r template_path v ''utils/time'' ''UtilsTimeCtrl'' False),
      (js ''/utils/cron'', route_r template_path v ''utils/cron'' ''UtilsCronCtrl'' False),
      (js ''/utils/ssl'', route_r template_path v ''utils/ssl'' ''UtilsSSLCtrl'' False),
      (js ''/utils/repository'', route_r template_path v ''utils/repository'' ''UtilsRepositoryCtrl'' False),
      (js ''/utils/shell'', route_r template_path v ''utils/shell'' ''UtilsShellCtrl'' False),
      (js ''/utils/firewall'', route_r template_path v ''utils/firewall'' ''UtilsFirewallCtrl'' False),
      (js ''/storage'', route_r template_path v ''storage/index'' ''StorageCtrl'' False),
      (js ''/storage/remote/:section'', route_r template_path v ''storage/remote'' ''StorageRemoteCtrl'' False),
      (js ''/storage/autofm'', route_r template_path v ''storage/autofm'' ''StorageAutoFMCtrl'' False),
      (js ''/storage/movedata'', route_r template_path v ''storage/movedata'' ''StorageMoveDataCtrl'' False),
      (js ''/storage/backup'', route_r template_path v ''storage/backup'' ''BackupCtrl'' False),
      (js ''/storage/migrate'', route_r template_path v ''storage/migrate'' ''UtilsMigrateCtrl'' False),
      (js ''/ecs'', route_r template_path v ''ecs/ecs'' ''ECSCtrl'' False),
      (js ''/ecs/index'', route_r template_path v ''ecs/index'' ''ECSIndexCtrl'' False),
      (js ''/ecs/account'', route_r template_path v ''ecs/account'' ''ECSAccountCtrl'' False),
      (js ''/ecs/:section'', route_r template_path v ''ecs/setting'' ''ECSSettingCtrl'' False),
      (js ''/setting'', route_r template_path v ''setting'' ''SettingCtrl'' False),
      (js ''/secure'', route_r template_path v ''secure'' ''SecureCtrl'' False),
      (js ''/plugins'', route_r template_path v ''plugins/index'' ''PluginsHome'' False),
      (js ''/plugins/:section'', route_r template_path v ''plugins/plugins'' ''PluginsCtrl'' False),
      (js ''/log'', route_r template_path v ''log'' ''LogCtrl'' False),
      (js ''/logout'', route_r template_path v ''logout'' ''LogoutCtrl'' False),
      (js ''/sorry'', route_r template_path v ''sorry'' ''SorryCtrl'' False)]"

text \<open>The argument of \<open>otherwise\<close>.\<close>

definition otherwise_redirectTo :: jsstring where
  "otherwise_redirectTo = js ''/sorry''"

text \<open>
  Modelled from the spec: the router (\<open>$routeProvider\<close> of the AngularJS library) is not
  part of this file. Section 4.1 of the specification: a path resolves to the template
  and controller of the entry it matches, and a path that matches no entry falls back to
  the \<open>otherwise\<close> route. The library's test that a path matches a registered pattern is
  the parameter \<open>matches\<close>; the first entry that matches is taken.
\<close>

datatype resolution = Enter route | RedirectTo jsstring

definition resolve_route ::
  "(jsstring \<Rightarrow> jsstring \<Rightarrow> bool) \<Rightarrow> jsstring \<Rightarrow> jsstring \<Rightarrow> jsstring \<Rightarrow> js_error + resolution" where
  "resolve_route matches template_path v path =
     (case find (\<lambda>(pattern, r). matches path pattern) (routes template_path v) of
        Some (pattern, r) \<Rightarrow> Inr (Enter r)
      | None \<Rightarrow> Inr (RedirectTo otherwise_redirectTo))"

section \<open>The auth gate (\<open>Auth.auth\<close>)\<close>

text \<open>
  \<open>auth\<close> creates a deferred, shows the loading notice, calls \<open>Auth.required\<close> with two
  callbacks and returns the promise. The state holds the promise, \<open>$location.path()\<close> and
  the calls made to the \<open>Message\<close> service, each with its arguments: the text (or
  \<open>false\<close>) and the second argument where one is passed.
\<close>

datatype promise = Pending | Resolved | Rejected

datatype msg_arg = Text jsstring | Off

datatype msg_call = SetInfo msg_arg "bool option" | SetError msg_arg "bool option"

record gate_state =
  deferred :: promise
  location_path :: jsstring
  messages :: "msg_call list"
  required_calls :: nat

definition msg_loading :: jsstring where
  "msg_loading = [0x6B63, 0x5728, 0x52A0, 0x8F7D, 0xFF0C, 0x8BF7, 0x7A0D, 0x5019, 0x002E, 0x002E, 0x002E]"

definition msg_relogin :: jsstring where
  "msg_relogin = [0x8EAB, 0x4EFD, 0x8BA4, 0x8BC1, 0x5931, 0x8D25, 0xFF0C, 0x8BF7, 0x003C, 0x0061, 0x0020, 0x0068, 0x0072, 0x0065, 0x0066, 0x003D, 0x0022, 0x0023, 0x002F, 0x006C, 0x006F, 0x0067, 0x0069, 0x006E, 0x0022, 0x003E, 0x91CD, 0x65B0, 0x767B, 0x5F55, 0x003C, 0x002F, 0x0061, 0x003E, 0xFF01]"

definition msg_failed :: jsstring where
  "msg_failed = [0x5BF9, 0x4E0D, 0x8D77, 0xFF0C, 0x52A0, 0x8F7D, 0x5931, 0x8D25, 0xFF01, 0xFF08, 0x7F51, 0x7EDC, 0x5F02, 0x5E38, 0x6216, 0x670D, 0x52A1, 0x5668, 0x6545, 0x969C, 0xFF09]"

text \<open>The body of \<open>auth\<close> up to \<open>return deferred.promise\<close>.\<close>

definition auth :: "gate_state \<Rightarrow> gate_state" where
  "auth g = g\<lparr>deferred := Pending,
             messages := messages g @ [SetInfo (Text msg_loading) (Some True)],
             required_calls := required_calls g + 1\<rparr>"

text \<open>The first callback, called with \<open>authed\<close>. Resolving a settled promise changes nothing.\<close>

definition auth_success :: "bool \<Rightarrow> gate_state \<Rightarrow> gate_state" where
  "auth_success authed g =
     (let g1 = g\<lparr>messages := messages g @ [SetInfo Off None]\<rparr> in
      if authed then g1\<lparr>deferred := (if deferred g1 = Pending then Resolved else deferred g1)\<rparr>
      else g1)"

text \<open>The second callback, called with the HTTP status.\<close>

definition auth_failure :: "int \<Rightarrow> gate_state \<Rightarrow> gate_state" where
  "auth_failure status g =
     (if status = 403 then
        g\<lparr>messages := messages g @ [SetError (Text msg_relogin) None],
          location_path := js ''/login''\<rparr>
      else
        g\<lparr>messages := messages g @ [SetError (Text msg_failed) None]\<rparr>)"



text \<open>A gate entered from \<open>path\<close> with nothing shown yet.\<close>

definition gate_init :: "jsstring \<Rightarrow> gate_state" where
  "gate_init path = \<lparr>deferred = Pending, location_path = path, messages = [], required_calls = 0\<rparr>"

section \<open>Cookies: \<open>set_cookie\<close>, \<open>get_cookie\<close>, \<open>del_cookie\<close>\<close>

subsection \<open>\<open>encodeURIComponent\<close> and \<open>decodeURIComponent\<close>\<close>

text \<open>
  The two built-ins as ECMAScript defines them (Encode and Decode of the URI handling
  functions). Encoding keeps the unreserved characters, reads a code point (a code unit, or
  a surrogate pair), throws URIError on an unpaired surrogate, and writes each octet of
  the UTF-8 form as \<open>%XX\<close> with upper-case digits. Code points and octets are natural
  numbers.
\<close>

definition uriUnreserved :: "16 word \<Rightarrow> bool" where
  "uriUnreserved c =
     ((0x41 \<le> c \<and> c \<le> 0x5A) \<or> (0x61 \<le> c \<and> c \<le> 0x7A) \<or> (0x30 \<le> c \<and> c \<le> 0x39)
      \<or> c \<in> set (js ''-_.!~*'()''))"

definition hexdigit :: "nat \<Rightarrow> 16 word" where
  "hexdigit n = of_nat (if n < 10 then 48 + n else 55 + n)"

definition percent :: "nat \<Rightarrow> jsstring" where
  "percent b = [0x25, hexdigit (b div 16), hexdigit (b mod 16)]"

definition utf8 :: "nat \<Rightarrow> nat list" where
  "utf8 cp =
     (if cp < 0x80 then [cp]
      else if cp < 0x800 then [0xC0 + cp div 64, 0x80 + cp mod 64]
      else if cp < 0x10000 then [0xE0 + cp div 4096, 0x80 + cp div 64 mod 64, 0x80 + cp mod 64]
      else [0xF0 + cp div 262144, 0x80 + cp div 4096 mod 64, 0x80 + cp div 64 mod 64,
            0x80 + cp mod 64])"

definition escape :: "nat \<Rightarrow> jsstring" where
  "escape cp = concat (map percent (utf8 cp))"

text \<open>The result of the rest of the string, with \<open>p\<close> in front unless it threw.\<close>

definition cons_ok :: "jsstring \<Rightarrow> js_error + jsstring \<Rightarrow> js_error + jsstring" where
  "cons_ok p r = (case r of Inl e \<Rightarrow> Inl e | Inr s \<Rightarrow> Inr (p @ s))"

fun encodeURIComponent :: "jsstring \<Rightarrow> js_error + jsstring" where
  "encodeURIComponent [] = Inr []"
| "encodeURIComponent (c # cs) =
     (if uriUnreserved c then cons_ok [c] (encodeURIComponent cs)
      else if c < 0xD800 \<or> 0xDFFF < c then cons_ok (escape (unat c)) (encodeURIComponent cs)
      else if 0xDC00 \<le> c then Inl URIError
      else (case cs of
              [] \<Rightarrow> Inl URIError
            | d # ds \<Rightarrow>
                if 0xDC00 \<le> d \<and> d \<le> 0xDFFF
                then cons_ok (escape ((unat c - 0xD800) * 0x400 + (unat d - 0xDC00) + 0x10000))
                       (encodeURIComponent ds)
                else Inl URIError))"

text \<open>A string in which every surrogate is part of a pair: a lead surrogate followed by a
  trail surrogate.\<close>

fun well_formed :: "jsstring \<Rightarrow> bool" where
  "well_formed [] = True"
| "well_formed (c # cs) =
     (if c < 0xD800 \<or> 0xDFFF < c then well_formed cs
      else if 0xDC00 \<le> c then False
      else (case cs of
              [] \<Rightarrow> False
            | d # ds \<Rightarrow> 0xDC00 \<le> d \<and> d \<le> 0xDFFF \<and> well_formed ds))"







subsection \<open>\<open>document.cookie\<close>\<close>

text \<open>
  \<open>document.cookie\<close> belongs to the browser. It is modelled after RFC 6265 and its
  revision (draft-ietf-httpbis-rfc6265bis, sections 5.6 to 5.8), for a document with one
  host and one path: a cookie has a name, a value and an expiry; assigning a string parses
  one cookie with its attributes and stores it unless the jar refuses it; reading gives the
  cookies that have not expired, joined by \<open>; \<close>. The attributes Expires and Max-Age
  are modelled; Domain, Path, Secure and HttpOnly are not, and the properties below are
  stated only for assignments without them.
\<close>

text \<open>The white space trimmed from names and values: what \<open>String.prototype.trim\<close>
  removes, as cookie jars written in JavaScript do; the SP and HTAB of the RFC are part of
  it.\<close>

definition wsp :: "16 word \<Rightarrow> bool" where
  "wsp c =
     (c \<in> {0x09, 0x0A, 0x0B, 0x0C, 0x0D, 0x20, 0xA0, 0x1680, 0x2028, 0x2029, 0x202F, 0x205F,
            0x3000, 0xFEFF}
      \<or> (0x2000 \<le> c \<and> c \<le> 0x200A))"

definition trim :: "jsstring \<Rightarrow> jsstring" where
  "trim s = rev (dropWhile wsp (rev (dropWhile wsp s)))"

text \<open>The pieces of a string between its semicolons: the name-value pair, then the
  attributes.\<close>

fun split_semicolon :: "jsstring \<Rightarrow> jsstring list" where
  "split_semicolon [] = [[]]"
| "split_semicolon (c # cs) =
     (if c = 0x3B then [] # split_semicolon cs
      else (case split_semicolon cs of [] \<Rightarrow> [[c]] | f # fs \<Rightarrow> (c # f) # fs))"

definition lower :: "16 word \<Rightarrow> 16 word" where
  "lower c = (if 0x41 \<le> c \<and> c \<le> 0x5A then c + 0x20 else c)"

datatype expiry = Session | Expires_at int | Earliest

record cookie =
  cookie_name :: jsstring
  cookie_value :: jsstring
  expiry_time :: expiry

text \<open>
  What the three functions take from the platform, as parameters of the model:
  \<^item> \<open>toGMTString\<close>: \<open>Date.prototype.toGMTString\<close>, of the time in milliseconds that
    \<open>exp\<close> holds;
  \<^item> \<open>parse_date\<close>: the browser's reading of the value of an Expires attribute;
  \<^item> \<open>regexp_match\<close>: \<open>new RegExp(source)\<close> followed by \<open>String.prototype.match\<close>: a
    SyntaxError when the source does not compile, \<open>null\<close> (\<open>None\<close>) when nothing
    matches, and otherwise the array of the match and its groups, a group that took no
    part being \<open>undefined\<close> (\<open>None\<close>);
  \<^item> \<open>sanitize\<close>: what the jar makes of an assigned string before it parses it: \<open>None\<close>
    when it ignores the assignment, otherwise the string it parses. Jars differ here: the
    RFC ignores a string with a control character and parses every other string as it is;
    jars also cut a string at a line end, drop an \<open>=\<close> at its beginning, and refuse reserved
    names and long strings.
\<close>

record platform =
  toGMTString :: "int \<Rightarrow> jsstring"
  parse_date :: "jsstring \<Rightarrow> int option"
  regexp_match :: "jsstring \<Rightarrow> jsstring \<Rightarrow> js_error + jsstring option list option"
  sanitize :: "jsstring \<Rightarrow> jsstring option"

text \<open>Max-Age: an optional \<open>-\<close> and digits, in seconds from now; zero or less is the
  earliest time there is.\<close>

definition digit :: "16 word \<Rightarrow> bool" where
  "digit c = (0x30 \<le> c \<and> c \<le> 0x39)"

definition digits_value :: "jsstring \<Rightarrow> nat" where
  "digits_value ds = foldl (\<lambda>n c. 10 * n + (unat c - 0x30)) 0 ds"

definition max_age :: "int \<Rightarrow> jsstring \<Rightarrow> expiry option" where
  "max_age now v =
     (case v of
        [] \<Rightarrow> None
      | c # cs \<Rightarrow>
          if (digit c \<or> c = 0x2D) \<and> list_all digit cs then
            (let delta = (if c = 0x2D then - int (digits_value cs) else int (digits_value v))
             in Some (if delta \<le> 0 then Earliest else Expires_at (now + delta * 1000)))
          else None)"

datatype attribute = Expires int | Max_Age expiry

definition parse_av :: "platform \<Rightarrow> int \<Rightarrow> jsstring \<Rightarrow> attribute option" where
  "parse_av P now av =
     (let (n, v) = (if 0x3D \<in> set av
                    then (takeWhile (\<lambda>c. c \<noteq> 0x3D) av, drop 1 (dropWhile (\<lambda>c. c \<noteq> 0x3D) av))
                    else (av, []));
          n' = map lower (trim n);
          v' = trim v
      in if n' = js ''expires'' then map_option Expires (parse_date P v')
         else if n' = js ''max-age'' then map_option Max_Age (max_age now v')
         else None)"

text \<open>The last Max-Age wins over the last Expires; without either the cookie lasts for
  the session.\<close>

definition cookie_expiry :: "attribute list \<Rightarrow> expiry" where
  "cookie_expiry as =
     (let ms = List.map_filter (\<lambda>a. case a of Max_Age e \<Rightarrow> Some e | Expires t \<Rightarrow> None) as;
          es = List.map_filter (\<lambda>a. case a of Expires t \<Rightarrow> Some t | Max_Age e \<Rightarrow> None) as
      in if ms \<noteq> [] then last ms else if es \<noteq> [] then Expires_at (last es) else Session)"

text \<open>A cookie has expired when its expiry lies in the past.\<close>

definition expired :: "int \<Rightarrow> cookie \<Rightarrow> bool" where
  "expired now c =
     (case expiry_time c of Session \<Rightarrow> False | Expires_at t \<Rightarrow> t < now | Earliest \<Rightarrow> True)"

definition evict :: "int \<Rightarrow> cookie list \<Rightarrow> cookie list" where
  "evict now jar = filter (\<lambda>c. \<not> expired now c) jar"

text \<open>A cookie replaces the stored cookie of its name, in its place; a new name goes to
  the end.\<close>

fun store :: "cookie \<Rightarrow> cookie list \<Rightarrow> cookie list" where
  "store c [] = [c]"
| "store c (d # ds) = (if cookie_name d = cookie_name c then c # ds else d # store c ds)"

text \<open>The name and the value of a name-value pair: the name is what stands before the
  first \<open>=\<close> and the value what follows it, both trimmed; a pair without \<open>=\<close> is a value
  with the empty name.\<close>

definition parse_pair :: "jsstring \<Rightarrow> jsstring \<times> jsstring" where
  "parse_pair nv =
     (if 0x3D \<in> set nv
      then (trim (takeWhile (\<lambda>c. c \<noteq> 0x3D) nv), trim (drop 1 (dropWhile (\<lambda>c. c \<noteq> 0x3D) nv)))
      else ([], trim nv))"

text \<open>
  The assignment \<open>document.cookie = str\<close> at time \<open>now\<close>: unless the jar ignores the
  string, the pair is what stands before the first semicolon of what the jar parses; a
  pair with neither name nor value is ignored; otherwise the cookie is stored and what has
  expired is evicted.
\<close>

definition cookie_assign :: "platform \<Rightarrow> int \<Rightarrow> jsstring \<Rightarrow> cookie list \<Rightarrow> cookie list" where
  "cookie_assign P now str jar =
     (case sanitize P str of
        None \<Rightarrow> jar
      | Some s \<Rightarrow>
          (case split_semicolon s of
             [] \<Rightarrow> jar
           | nv # avs \<Rightarrow>
               (let (n, v) = parse_pair nv in
                if n = [] \<and> v = [] then jar
                else evict now
                       (store \<lparr>cookie_name = n, cookie_value = v,
                               expiry_time = cookie_expiry (List.map_filter (parse_av P now) avs)\<rparr>
                          jar))))"




subsection \<open>The three functions\<close>









subsection \<open>A name matched literally\<close>

text \<open>
  When the name holds no character that means something in a pattern, the regular
  expression \<open>(^| )name=([^;]*)(;|$)\<close> finds the text \<open>name=\<close> at the beginning of the
  string or after a space, at the leftmost place there is, and its second group runs up to
  the next semicolon or the end. With \<open>pat\<close> for the name followed by \<open>=\<close>, \<open>re_exec pat s\<close>
  is that second group, and \<open>literal_match pat s\<close> the whole array: the match, the first
  group (empty or a space), the second, the third (a semicolon or empty).
\<close>

fun re_scan :: "jsstring \<Rightarrow> jsstring \<Rightarrow> jsstring option" where
  "re_scan pat [] = None"
| "re_scan pat (c # cs) =
     (if c = 0x20 \<and> prefix pat cs
      then Some (takeWhile (\<lambda>x. x \<noteq> 0x3B) (drop (length pat) cs))
      else re_scan pat cs)"

definition re_exec :: "jsstring \<Rightarrow> jsstring \<Rightarrow> jsstring option" where
  "re_exec pat s =
     (if prefix pat s then Some (takeWhile (\<lambda>x. x \<noteq> 0x3B) (drop (length pat) s))
      else re_scan pat s)"






subsection \<open>Names, jars and dates of the round trip\<close>





text \<open>A jar as assignments leave it: no semicolon in a name or a value, and no two
  cookies of one name.\<close>

definition jar_inv :: "cookie list \<Rightarrow> bool" where
  "jar_inv jar =
     (list_all (\<lambda>c. 0x3B \<notin> set (cookie_name c) \<and> 0x3B \<notin> set (cookie_value c)) jar
      \<and> distinct (map cookie_name jar))"






section \<open>Properties of the watchdog\<close>

lemma js_authtimeout_neq [simp]:
  "js ''_authtimeout'' \<noteq> js ''_authtimeout_title''"
  "js ''_authtimeout_title'' \<noteq> js ''_authtimeout''"
  by (simp_all add: js_def)

lemma blinks_nth: "blinks ! (n mod 2) = (if even n then [0x767B, 0x5F55, 0x8D85, 0x65F6] else js ''!!!!!!!!'')"
proof (cases "even n")
  case True
  then have "n mod 2 = 0" by presburger
  with True show ?thesis by (simp add: blinks_def)
next
  case False
  then have "n mod 2 = 1" by presburger
  with False show ?thesis by (simp add: blinks_def)
qed

text \<open>While a run blinks, one firing of the title timer shows the next of the two strings
  and registers the same function again after one second.\<close>

lemma fire_title_blinking:
  assumes "timers s (js ''_authtimeout_title'') = Some \<lparr>callback = Toggletitle k, delay = 1000\<rparr>"
      and "\<not> stop_blink (blinkers s k)"
  shows "fire (js ''_authtimeout_title'') t p s =
           s\<lparr>timers := (timers s)(js ''_authtimeout_title'' \<mapsto> \<lparr>callback = Toggletitle k, delay = 1000\<rparr>),
             htmlTitle := Some (blinks ! (blink_i (blinkers s k) mod 2)),
             blinkers := (blinkers s)(k := (blinkers s k)\<lparr>blink_i := blink_i (blinkers s k) + 1\<rparr>)\<rparr>"
  using assms by (simp add: fire_def toggletitle_def Timeout_def Let_def)

lemma expiring_branch:
  assumes "now - answer * 1000 > auth_timeout"
  shows "getlastactive_callback now answer s =
           s\<lparr>blinkers := (blinkers s)(next_blink s :=
                 \<lparr>oldHtmlTitle = htmlTitle s, blink_i = 1, stop_blink = False\<rparr>),
             next_blink := Suc (next_blink s),
             htmlTitle := Some (blinks ! 0),
             timers := (timers s)(js ''_authtimeout_title'' \<mapsto>
                 \<lparr>callback = Toggletitle (next_blink s), delay = 1000\<rparr>),
             authrenew := Some (next_blink s),
             authconfirm_modal := authconfirm_modal s + 1\<rparr>"
  using assms by (simp add: getlastactive_callback_def toggletitle_def Timeout_def Let_def)

lemma expiring_branch_blocked:
  assumes "now - answer * 1000 > auth_timeout"
  shows "blocked_confirm (next_blink s) (getlastactive_callback now answer s)"
    and "oldHtmlTitle (blinkers (getlastactive_callback now answer s) (next_blink s)) = htmlTitle s"
  by (simp_all add: expiring_branch [OF assms] blocked_confirm_def)

lemma fire_title_run:
  assumes "timers s (js ''_authtimeout_title'') = Some \<lparr>callback = Toggletitle k, delay = 1000\<rparr>"
      and "\<not> stop_blink (blinkers s k)"
      and "env \<noteq> []"
  shows "timers (fire_title env s) (js ''_authtimeout_title'')
           = Some \<lparr>callback = Toggletitle k, delay = 1000\<rparr>
         \<and> \<not> stop_blink (blinkers (fire_title env s) k)
         \<and> blink_i (blinkers (fire_title env s) k) = blink_i (blinkers s k) + length env
         \<and> htmlTitle (fire_title env s) = Some (blinks ! ((blink_i (blinkers s k) + length env - 1) mod 2))
         \<and> authconfirm_modal (fire_title env s) = authconfirm_modal s
         \<and> authrenew (fire_title env s) = authrenew s
         \<and> oldHtmlTitle (blinkers (fire_title env s) k) = oldHtmlTitle (blinkers s k)
         \<and> last_active (fire_title env s) = last_active s"
  using assms
proof (induction env arbitrary: s)
  case Nil
  then show ?case by simp
next
  case (Cons e env)
  obtain t p where e: "e = (t, p)" by (cases e)
  let ?s1 = "fire (js ''_authtimeout_title'') t p s"
  have s1: "?s1 = s\<lparr>timers := (timers s)(js ''_authtimeout_title'' \<mapsto> \<lparr>callback = Toggletitle k, delay = 1000\<rparr>),
             htmlTitle := Some (blinks ! (blink_i (blinkers s k) mod 2)),
             blinkers := (blinkers s)(k := (blinkers s k)\<lparr>blink_i := blink_i (blinkers s k) + 1\<rparr>)\<rparr>"
    by (rule fire_title_blinking [OF Cons.prems(1,2)])
  have step: "fire_title (e # env) s = fire_title env ?s1"
    by (simp add: fire_title_def e)
  show ?case
  proof (cases "env = []")
    case True
    then show ?thesis using s1 Cons.prems(2) by (simp add: fire_title_def e)
  next
    case False
    have "timers ?s1 (js ''_authtimeout_title'') = Some \<lparr>callback = Toggletitle k, delay = 1000\<rparr>"
      and "\<not> stop_blink (blinkers ?s1 k)"
      using Cons.prems(2) by (simp_all add: s1)
    from Cons.IH [OF this False] show ?thesis
      unfolding step by (simp add: s1)
  qed
qed

text \<open>
  Claim C1. A tick whose client idle time exceeds \<open>auth_timeout\<close> sends the last-active
  query and nothing else; when the server's answer also puts the idle time above
  \<open>auth_timeout\<close>, the callback opens the modal once, shows the first of the two strings
  and registers \<open>toggletitle\<close> after 1000 ms; every firing of that timer shows the other
  string and registers it again after 1000 ms.
\<close>

theorem C1_expiring_modal_and_blink:
  assumes "now - last_active s > auth_timeout"
      and "now - answer * 1000 > auth_timeout"
  shows "active now path s = Auth_getlastactive now s
       \<and> authconfirm_modal (getlastactive_callback now answer s') = authconfirm_modal s' + 1
       \<and> htmlTitle (fire_title env (getlastactive_callback now answer s'))
           = Some (if even (length env) then [0x767B, 0x5F55, 0x8D85, 0x65F6] else js ''!!!!!!!!'')
       \<and> timers (fire_title env (getlastactive_callback now answer s')) (js ''_authtimeout_title'')
           = Some \<lparr>callback = Toggletitle (next_blink s'), delay = 1000\<rparr>"
proof -
  let ?r = "getlastactive_callback now answer s'"
  have tick: "active now path s = Auth_getlastactive now s"
    using assms(1) by (simp add: active_def check_timeout_def auth_timeout_def)
  have r: "timers ?r (js ''_authtimeout_title'') = Some \<lparr>callback = Toggletitle (next_blink s'), delay = 1000\<rparr>"
    "\<not> stop_blink (blinkers ?r (next_blink s'))"
    "blink_i (blinkers ?r (next_blink s')) = 1"
    "htmlTitle ?r = Some (blinks ! 0)"
    "authconfirm_modal ?r = authconfirm_modal s' + 1"
    by (simp_all add: expiring_branch [OF assms(2)])
  show ?thesis
  proof (cases "env = []")
    case True
    then show ?thesis using tick r by (simp add: fire_title_def blinks_def)
  next
    case False
    from fire_title_run [OF r(1,2) False] r(3) tick r(5) show ?thesis
      by (simp add: blinks_nth)
  qed
qed

theorem C1_witness:
  "(3000000 - last_active wd_init > auth_timeout \<and> 3000000 - 100 * 1000 > auth_timeout)
   \<and> active 3000000 (js ''/'') wd_init = Auth_getlastactive 3000000 wd_init
   \<and> authconfirm_modal (getlastactive_callback 3000000 100 (Auth_getlastactive 3000000 wd_init)) = 1
   \<and> htmlTitle (fire_title [(3000100, js ''/''), (3001100, js ''/''), (3002100, js ''/'')]
        (getlastactive_callback 3000000 100 (Auth_getlastactive 3000000 wd_init)))
       = Some (js ''!!!!!!!!'')"
proof -
  have h: "3000000 - last_active wd_init > auth_timeout" "3000000 - 100 * 1000 > auth_timeout"
    by (simp_all add: wd_init_def auth_timeout_def)
  show ?thesis
    using h C1_expiring_modal_and_blink [OF h, of "js ''/''" "Auth_getlastactive 3000000 wd_init"
        "[(3000100, js ''/''), (3001100, js ''/''), (3002100, js ''/'')]"]
    by (simp add: wd_init_def Auth_getlastactive_def)
qed

text \<open>
  Claim C2. When the server's answer puts the idle time at or below \<open>auth_timeout\<close>, the
  callback of a tick adopts the server's value (in milliseconds) as \<open>last_active\<close>,
  registers \<open>active\<close> again after \<open>check_timeout\<close> and leaves the modal alone; the tick
  itself, with a client idle time above \<open>auth_timeout\<close>, only sends the query.
\<close>

theorem C2_server_resync:
  assumes "now - last_active s > auth_timeout"
      and "now - answer * 1000 \<le> auth_timeout"
  shows "active now path s = Auth_getlastactive now s
       \<and> getlastactive_callback now answer s' =
           s'\<lparr>last_active := answer * 1000,
              timers := (timers s')(js ''_authtimeout'' \<mapsto> \<lparr>callback = Active, delay = check_timeout\<rparr>)\<rparr>
       \<and> authconfirm_modal (getlastactive_callback now answer s') = authconfirm_modal s'
       \<and> authconfirm_modal (active now path s) = authconfirm_modal s"
  using assms
  by (simp add: active_def getlastactive_callback_def Timeout_def Auth_getlastactive_def
      check_timeout_def auth_timeout_def)

theorem C2_witness:
  "(3000000 - last_active wd_init > auth_timeout \<and> 3000000 - 2000 * 1000 \<le> auth_timeout)
   \<and> active 3000000 (js ''/'') wd_init = Auth_getlastactive 3000000 wd_init
   \<and> getlastactive_callback 3000000 2000 (Auth_getlastactive 3000000 wd_init)
       = wd_init\<lparr>last_active := 2000000,
                 timers := [js ''_authtimeout'' \<mapsto> \<lparr>callback = Active, delay = 300000\<rparr>],
                 calls := [Getlastactive 3000000]\<rparr>"
proof -
  have h: "3000000 - last_active wd_init > auth_timeout" "3000000 - 2000 * 1000 \<le> auth_timeout"
    by (simp_all add: wd_init_def auth_timeout_def)
  show ?thesis
    using h C2_server_resync [OF h, of "js ''/''" "Auth_getlastactive 3000000 wd_init"]
    by (simp add: wd_init_def Auth_getlastactive_def check_timeout_def)
qed

text \<open>
  Claim C3. In the state the expiring branch leaves (\<open>blocked_confirm\<close>), the confirmation
  action succeeds and runs \<open>_authrenew\<close>: \<open>last_active\<close> becomes the current time, one
  \<open>Auth.required\<close> call is sent, \<open>active\<close> is registered again after \<open>check_timeout\<close>,
  and the run is marked stopped, so that the pending \<open>toggletitle\<close> puts the title saved by
  the run back and registers nothing further.
\<close>

theorem C3_confirm_resumes:
  assumes "blocked_confirm k s"
  shows "confirm t s = Inr (authrenew_fn k t s)
       \<and> last_active (authrenew_fn k t s) = t
       \<and> calls (authrenew_fn k t s) = calls s @ [Required]
       \<and> timers (authrenew_fn k t s) (js ''_authtimeout'')
           = Some \<lparr>callback = Active, delay = check_timeout\<rparr>
       \<and> stop_blink (blinkers (authrenew_fn k t s) k)
       \<and> fire (js ''_authtimeout_title'') t' p (authrenew_fn k t s)
           = (authrenew_fn k t s)
               \<lparr>timers := (timers (authrenew_fn k t s))(js ''_authtimeout_title'' := None),
                htmlTitle := oldHtmlTitle (blinkers s k)\<rparr>"
  using assms
  by (simp add: blocked_confirm_def confirm_def authrenew_fn_def Timeout_def Auth_required_def
      fire_def toggletitle_def)

theorem C3_witness:
  "blocked_confirm 0 (fire_title [(3001000, js ''/'')]
       (getlastactive_callback 3000000 100 (wd_init\<lparr>htmlTitle := Some (js ''InPanel'')\<rparr>)))
   \<and> htmlTitle (fire_title [(3001000, js ''/'')]
       (getlastactive_callback 3000000 100 (wd_init\<lparr>htmlTitle := Some (js ''InPanel'')\<rparr>)))
       = Some (js ''!!!!!!!!'')
   \<and> (case confirm 3001500 (fire_title [(3001000, js ''/'')]
          (getlastactive_callback 3000000 100 (wd_init\<lparr>htmlTitle := Some (js ''InPanel'')\<rparr>))) of
         Inl e \<Rightarrow> False
       | Inr r \<Rightarrow>
           last_active r = 3001500 \<and> calls r = [Required]
           \<and> timers r (js ''_authtimeout'') = Some \<lparr>callback = Active, delay = 300000\<rparr>
           \<and> htmlTitle (fire (js ''_authtimeout_title'') 3002000 (js ''/'') r) = Some (js ''InPanel'')
           \<and> timers (fire (js ''_authtimeout_title'') 3002000 (js ''/'') r) (js ''_authtimeout_title'') = None)"
proof -
  let ?s = "fire_title [(3001000, js ''/'')]
       (getlastactive_callback 3000000 100 (wd_init\<lparr>htmlTitle := Some (js ''InPanel'')\<rparr>))"
  have s: "?s = wd_init
      \<lparr>htmlTitle := Some (js ''!!!!!!!!''),
       blinkers := (blinkers wd_init)(0 := \<lparr>oldHtmlTitle = Some (js ''InPanel''), blink_i = Suc (Suc 0), stop_blink = False\<rparr>),
       next_blink := 1,
       timers := [js ''_authtimeout_title'' \<mapsto> \<lparr>callback = Toggletitle 0, delay = 1000\<rparr>],
       authrenew := Some 0,
       authconfirm_modal := 1\<rparr>"
    by (simp add: fire_title_def fire_def getlastactive_callback_def toggletitle_def Timeout_def
        wd_init_def auth_timeout_def blinks_def)
  have h: "blocked_confirm 0 ?s"
    unfolding s by (simp add: blocked_confirm_def wd_init_def)
  have t: "htmlTitle ?s = Some (js ''!!!!!!!!'')"
    unfolding s by simp
  from C3_confirm_resumes [OF h, of 3001500 3002000 "js ''/''"] h t show ?thesis
    unfolding s
    by (simp add: authrenew_fn_def Timeout_def Auth_required_def wd_init_def check_timeout_def)
qed

text \<open>
  Claim C4, as the code has it. The rescheduling at the end of a tick is guarded by
  \<open>$location.path() != '/'\<close>, and \<open>/\<close> is the path of the main view: a tick outside the
  server-checking branch registers \<open>active\<close> again exactly when the current path is not
  \<open>/\<close>, and a tick in the server-checking branch never does.
\<close>

theorem C4_reschedule_guard:
  "timers (active now path s) =
     (if now - last_active s \<le> auth_timeout \<and> path \<noteq> js ''/''
      then (timers s)(js ''_authtimeout'' \<mapsto> \<lparr>callback = Active, delay = check_timeout\<rparr>)
      else timers s)"
  by (simp add: active_def Timeout_def Auth_required_def Auth_getlastactive_def
      check_timeout_def auth_timeout_def)

text \<open>The claim as the specification words it fails: away from the main view, on
  \<open>/service\<close>, the first tick after start-up registers the timer again, and on the main
  view \<open>/\<close> the same tick does not.\<close>

theorem C4_counterexample:
  "timers (fire (js ''_authtimeout'') 300000 (js ''/service'') (auto_auth 0 wd_init)) (js ''_authtimeout'')
     = Some \<lparr>callback = Active, delay = 300000\<rparr>
   \<and> timers (fire (js ''_authtimeout'') 300000 (js ''/'') (auto_auth 0 wd_init)) (js ''_authtimeout'')
     = None"
  by (simp add: fire_def auto_auth_def active_def Timeout_def wd_init_def check_timeout_def
      auth_timeout_def js_def)

text \<open>
  Claim C5, as the code has it. The mouse-move handler, the key-down handler and
  \<open>_authrenew\<close> all store the clock reading, so none of them lowers \<open>last_active\<close> unless
  it is ahead of the clock. The adoption of the server's value does not lower it as long
  as \<open>last_active\<close> is still as old as the tick saw it. No other function writes it.
\<close>

theorem C5_last_active_writes:
  "(last_active s \<le> t \<longrightarrow>
      last_active s \<le> last_active (mousemove t s)
      \<and> last_active s \<le> last_active (keydown t s)
      \<and> last_active s \<le> last_active (authrenew_fn k t s))
   \<and> (now - last_active s > auth_timeout \<and> now - answer * 1000 \<le> auth_timeout \<longrightarrow>
      last_active s \<le> last_active (getlastactive_callback now answer s))
   \<and> (now - answer * 1000 > auth_timeout \<longrightarrow>
      last_active (getlastactive_callback now answer s) = last_active s)
   \<and> last_active (active now path s) = last_active s
   \<and> last_active (toggletitle k s) = last_active s"
  by (simp add: mousemove_def keydown_def authrenew_fn_def Timeout_def Auth_required_def
      Auth_getlastactive_def getlastactive_callback_def toggletitle_def active_def Let_def
      check_timeout_def auth_timeout_def)

theorem C5_witness:
  "last_active wd_init \<le> 5
   \<and> last_active (mousemove 5 wd_init) = 5
   \<and> last_active (keydown 5 wd_init) = 5
   \<and> last_active (authrenew_fn 0 5 wd_init) = 5
   \<and> (3000000 - last_active wd_init > auth_timeout \<and> 3000000 - 2000 * 1000 \<le> auth_timeout)
   \<and> last_active wd_init \<le> last_active (getlastactive_callback 3000000 2000 wd_init)
   \<and> 3000000 - 100 * 1000 > auth_timeout
   \<and> last_active (getlastactive_callback 3000000 100 wd_init) = 0"
  using C5_last_active_writes [of wd_init 5 0 3000000 2000 "js ''/''"]
    C5_last_active_writes [of wd_init 5 0 3000000 100 "js ''/''"]
  by (simp add: wd_init_def auth_timeout_def mousemove_def keydown_def authrenew_fn_def
      Timeout_def Auth_required_def)

text \<open>The claim as the specification words it fails at the adoption of the server's
  value: a mouse move between the tick and the server's answer is overwritten by the
  older server value.\<close>

theorem C5_counterexample:
  "2700000 - last_active (auto_auth 0 wd_init) > auth_timeout
   \<and> 2700000 - 2000 * 1000 \<le> auth_timeout
   \<and> last_active (mousemove 2700050 (active 2700000 (js ''/service'') (auto_auth 0 wd_init))) = 2700050
   \<and> last_active (getlastactive_callback 2700000 2000
        (mousemove 2700050 (active 2700000 (js ''/service'') (auto_auth 0 wd_init)))) = 2000000"
  by (simp add: getlastactive_callback_def mousemove_def active_def auto_auth_def Timeout_def
      Auth_getlastactive_def wd_init_def check_timeout_def auth_timeout_def)

text \<open>
  Claim C7, as the code has it. A tick with a client idle time below \<open>check_timeout\<close>
  sends exactly one \<open>Auth.required\<close> call and leaves the modal alone; it registers
  \<open>active\<close> again after \<open>check_timeout\<close> provided the current path is not \<open>/\<close>.
\<close>

theorem C7_refresh_tick:
  assumes "now - last_active s < check_timeout"
  shows "calls (active now path s) = calls s @ [Required]
       \<and> authconfirm_modal (active now path s) = authconfirm_modal s
       \<and> (path \<noteq> js ''/'' \<longrightarrow>
            timers (active now path s) (js ''_authtimeout'')
              = Some \<lparr>callback = Active, delay = check_timeout\<rparr>)"
  using assms
  by (simp add: active_def Timeout_def Auth_required_def)

theorem C7_witness:
  "10 - last_active wd_init < check_timeout
   \<and> js ''/service'' \<noteq> js ''/''
   \<and> calls (active 10 (js ''/service'') wd_init) = [Required]
   \<and> authconfirm_modal (active 10 (js ''/service'') wd_init) = 0
   \<and> timers (active 10 (js ''/service'') wd_init) (js ''_authtimeout'')
       = Some \<lparr>callback = Active, delay = 300000\<rparr>"
proof -
  have h: "10 - last_active wd_init < check_timeout"
    by (simp add: wd_init_def check_timeout_def)
  have p: "js ''/service'' \<noteq> js ''/''"
    by (simp add: js_def)
  from C7_refresh_tick [OF h, of "js ''/service''"] h p show ?thesis
    by (simp add: wd_init_def check_timeout_def)
qed

text \<open>The claim as the specification words it fails on the main view: the tick sends the
  call, and no timer is pending afterwards.\<close>

theorem C7_counterexample:
  "300000 - last_active (mousemove 200000 (auto_auth 0 wd_init)) < check_timeout
   \<and> calls (fire (js ''_authtimeout'') 300000 (js ''/'') (mousemove 200000 (auto_auth 0 wd_init)))
       = [Required]
   \<and> timers (fire (js ''_authtimeout'') 300000 (js ''/'') (mousemove 200000 (auto_auth 0 wd_init)))
       = Map.empty"
  by (simp add: fire_def mousemove_def auto_auth_def active_def Timeout_def Auth_required_def
      wd_init_def check_timeout_def)

section \<open>Properties of the auth gate\<close>



text \<open>
  Claim C10. When the success callback is called with \<open>authed\<close> false, the gate only takes
  the loading notice away: the promise stays pending, the location is unchanged and no
  error is shown. Nothing but the success callback with \<open>authed\<close> true settles the promise.
\<close>

theorem C10_unauthenticated_success_blocks:
  "auth_success False g = g\<lparr>messages := messages g @ [SetInfo Off None]\<rparr>
   \<and> deferred (auth_success False (auth g)) = Pending
   \<and> location_path (auth_success False (auth g)) = location_path g
   \<and> messages (auth_success False (auth g))
       = messages g @ [SetInfo (Text msg_loading) (Some True), SetInfo Off None]
   \<and> deferred (auth_failure status (auth_success False (auth g))) = Pending
   \<and> deferred (auth_success False (auth_success False (auth g))) = Pending"
  by (simp add: auth_success_def auth_def auth_failure_def)

section \<open>Properties of the route table\<close>

lemma sorry_registered:
  "(js ''/sorry'', route_r template_path v ''sorry'' ''SorryCtrl'' False) \<in> set (routes template_path v)"
  by (simp add: routes_def)

text \<open>
  Claim C9. A path that matches none of the registered patterns resolves, without an
  error, to a redirect to \<open>/sorry\<close>, which is itself a registered route.
\<close>

theorem C9_unmatched_falls_back:
  assumes "\<forall>(pattern, r) \<in> set (routes template_path v). \<not> matches path pattern"
  shows "resolve_route matches template_path v path = Inr (RedirectTo (js ''/sorry''))
       \<and> (js ''/sorry'', route_r template_path v ''sorry'' ''SorryCtrl'' False)
           \<in> set (routes template_path v)"
proof -
  have "find (\<lambda>(pattern, r). matches path pattern) (routes template_path v) = None"
    using assms by (auto simp add: find_None_iff)
  then show ?thesis
    by (simp add: resolve_route_def otherwise_redirectTo_def sorry_registered)
qed

theorem C9_witness:
  "js ''/nowhere'' \<notin> set (map fst (routes (js ''/static'') (js ''1607007600'')))
   \<and> resolve_route (\<lambda>path pattern. path = pattern) (js ''/static'') (js ''1607007600'') (js ''/nowhere'')
       = Inr (RedirectTo (js ''/sorry''))"
proof -
  have h: "\<forall>(pattern, r) \<in> set (routes (js ''/static'') (js ''1607007600'')).
             js ''/nowhere'' \<noteq> pattern"
    by (simp add: routes_def js_def)
  from C9_unmatched_falls_back [of "js ''/static''" "js ''1607007600''" "\<lambda>path pattern. path = pattern"
      "js ''/nowhere''"] h
  show ?thesis
    by (auto simp add: case_prod_unfold)
qed

section \<open>Properties of the cookie functions\<close>

subsection \<open>Decoding inverts encoding\<close>




















text \<open>Encoding throws exactly on the strings that are not well formed, and throws nothing
  but URIError.\<close>

lemma unreserved_bmp: "uriUnreserved c \<Longrightarrow> c < 0xD800"
  by (auto simp add: uriUnreserved_def js_def word_le_nat_alt word_less_nat_alt)

lemma cons_ok_Inl: "cons_ok p r = Inl e \<longleftrightarrow> r = Inl e"
  by (cases r) (auto simp add: cons_ok_def)

lemma encode_throws_iff:
  "encodeURIComponent v = Inl URIError \<longleftrightarrow> \<not> well_formed v"
proof (induction v rule: encodeURIComponent.induct)
  case 1
  then show ?case by simp
next
  case (2 c cs)
  show ?case
  proof (cases "uriUnreserved c")
    case True
    with "2.IH"(1) unreserved_bmp [OF True] show ?thesis
      by (simp add: cons_ok_Inl)
  next
    case False
    note unres = this
    show ?thesis
    proof (cases "c < 0xD800 \<or> 0xDFFF < c")
      case True
      with "2.IH"(2) [OF unres True] unres show ?thesis
        by (simp add: cons_ok_Inl)
    next
      case False
      note surr = this
      show ?thesis
      proof (cases "0xDC00 \<le> c")
        case True
        with unres surr show ?thesis by simp
      next
        case False
        note hi = this
        show ?thesis
        proof (cases cs)
          case Nil
          with unres surr hi show ?thesis by simp
        next
          case (Cons d ds)
          show ?thesis
          proof (cases "0xDC00 \<le> d \<and> d \<le> 0xDFFF")
            case True
            with "2.IH"(3) [OF unres surr hi Cons True] unres surr hi Cons show ?thesis
              by (simp add: cons_ok_Inl)
          next
            case False
            with unres surr hi Cons show ?thesis by auto
          qed
        qed
      qed
    qed
  qed
qed

lemma encode_error: "encodeURIComponent v = Inl e \<Longrightarrow> e = URIError"
proof (induction v rule: encodeURIComponent.induct)
  case 1
  then show ?case by simp
next
  case (2 c cs)
  then show ?case
    by (auto simp add: cons_ok_Inl split: if_splits list.splits)
qed

subsection \<open>The literal match on the cookie string\<close>





lemma re_scan_separator: "re_scan pat (0x3B # 0x20 # s) = re_exec pat s"
  by (simp add: re_exec_def)








subsection \<open>Parsing the assigned string\<close>



lemma trim_subset: "set (trim s) \<subseteq> set s"
proof -
  have "set (dropWhile wsp (rev (dropWhile wsp s))) \<subseteq> set (rev (dropWhile wsp s))"
    by (rule set_dropWhileD [THEN subsetI])
  also have "\<dots> \<subseteq> set s"
    using set_dropWhileD [of _ wsp s] by auto
  finally show ?thesis by (simp add: trim_def)
qed




lemma parse_pair_semicolon:
  assumes "0x3B \<notin> set t"
  shows "0x3B \<notin> set (fst (parse_pair t))" "0x3B \<notin> set (snd (parse_pair t))"
proof -
  have "set (takeWhile (\<lambda>c. c \<noteq> 0x3D) t) \<subseteq> set t"
    by (auto dest: set_takeWhileD)
  moreover have "set (drop 1 (dropWhile (\<lambda>c. c \<noteq> 0x3D) t)) \<subseteq> set t"
    by (meson in_set_dropD set_dropWhileD subsetI)
  ultimately show "0x3B \<notin> set (fst (parse_pair t))" "0x3B \<notin> set (snd (parse_pair t))"
    using assms trim_subset by (auto simp add: parse_pair_def)
qed

subsection \<open>The jar\<close>

lemma set_store: "set (store c jar) \<subseteq> insert c (set jar)"
  by (induction jar) auto



lemma distinct_store:
  "distinct (map cookie_name jar) \<Longrightarrow> distinct (map cookie_name (store c jar))"
proof (induction jar)
  case Nil
  then show ?case by simp
next
  case (Cons d jar)
  have "cookie_name ` set (store c jar) \<subseteq> insert (cookie_name c) (cookie_name ` set jar)"
    using set_store [of c jar] by auto
  with Cons show ?case
    by auto
qed


lemma distinct_evict: "distinct (map cookie_name jar) \<Longrightarrow> distinct (map cookie_name (evict now jar))"
  by (simp add: evict_def distinct_map_filter)

text \<open>Assignments keep a jar as \<open>jar_inv\<close> describes it, starting from the empty jar.\<close>

lemma jar_inv_store_evict:
  assumes "jar_inv jar" and "0x3B \<notin> set (cookie_name c)" "0x3B \<notin> set (cookie_value c)"
  shows "jar_inv (evict now (store c jar))"
proof -
  have "\<forall>d \<in> set (store c jar). 0x3B \<notin> set (cookie_name d) \<and> 0x3B \<notin> set (cookie_value d)"
    using assms set_store [of c jar] by (auto simp add: jar_inv_def list_all_iff)
  moreover have "distinct (map cookie_name (evict now (store c jar)))"
    using assms(1) by (intro distinct_evict distinct_store) (simp add: jar_inv_def)
  ultimately show ?thesis
    by (simp add: jar_inv_def list_all_iff evict_def)
qed

lemma jar_inv_parsed:
  assumes "jar_inv jar"
  shows "jar_inv (case split_semicolon str of
                    [] \<Rightarrow> jar
                  | nv # avs \<Rightarrow>
                      (let (n, v) = parse_pair nv in
                       if n = [] \<and> v = [] then jar
                       else evict now
                              (store \<lparr>cookie_name = n, cookie_value = v,
                                      expiry_time = cookie_expiry (List.map_filter (parse_av P now) avs)\<rparr>
                                 jar)))"
proof (cases "split_semicolon str")
  case Nil
  with assms show ?thesis by simp
next
  case (Cons nv avs)
  have "0x3B \<notin> set nv"
    using Cons
  proof (induction str arbitrary: nv avs)
    case Nil
    then show ?case by simp
  next
    case (Cons c str)
    then show ?case
      by (auto split: if_splits list.splits)
  qed
  from parse_pair_semicolon [OF this] assms show ?thesis
    by (auto simp add: Cons Let_def case_prod_unfold intro!: jar_inv_store_evict)
qed

lemma jar_inv_cookie_assign:
  assumes "jar_inv jar"
  shows "jar_inv (cookie_assign P now str jar)"
  using assms jar_inv_parsed [OF assms]
  by (simp add: cookie_assign_def split: option.splits)

lemma jar_inv_empty: "jar_inv []"
  by (simp add: jar_inv_def)

subsection \<open>Round trips\<close>


























end
